theory Spec2Isabelle
  imports Complex_Main
begin

section \<open>The data of \<^verbatim>\<open>graph.hh\<close>\<close>

text \<open>
  \<^verbatim>\<open>graph.hh\<close> declares the class \<^verbatim>\<open>GraphInterface\<close>, its enumerations and typedefs,
  the inline configuration accessors, and the class \<^verbatim>\<open>GraphException\<close>. A \<^verbatim>\<open>double\<close>
  is only stored, returned and used as a histogram key in what follows (no arithmetic is
  done on it), so it is idealised as a real number.
\<close>

type_synonym double = real

text \<open>\<^verbatim>\<open>enum degree_t\<close>: four enumerators, in the order of the header.\<close>

datatype degree_t = IN_DEGREE | OUT_DEGREE | TOTAL_DEGREE | SCALAR


datatype neighbours_t = IN_NEIGHBOURS | OUT_NEIGHBOURS | ALL_NEIGHBOURS

text \<open>
  \<^verbatim>\<open>typedef boost::variant<degree_t,std::string> deg_t\<close>: a value of the variant holds
  either a \<^verbatim>\<open>degree_t\<close> (any of its enumerators) or a \<^verbatim>\<open>std::string\<close>.
\<close>

datatype deg_t = Deg degree_t | Name string

text \<open>\<^verbatim>\<open>hist_t\<close>: an unordered map from a \<^verbatim>\<open>double\<close> key to a \<^verbatim>\<open>size_t\<close> count, kept as
  an association list with one entry per key.\<close>

type_synonym hist_t = "(double \<times> nat) list"

text \<open>
  \<^verbatim>\<open>multigraph_t\<close> is a bidirectional \<^verbatim>\<open>adjacency_list\<close> over \<^verbatim>\<open>vecS\<close>: the vertices are
  \<open>0 ..< vertex_count\<close>, and each edge carries its source and target. The edges are kept in
  the order of their \<^verbatim>\<open>edge_index\<close>, so that an edge is its position in the list. The members
  \<^verbatim>\<open>_vertex_index\<close> and \<^verbatim>\<open>_edge_index\<close> of the class are the index maps of \<^verbatim>\<open>_mg\<close> itself
  (handles without a state of their own), so they are not fields of the record below.
\<close>

record multigraph_t =
  vertex_count :: nat
  edge_list :: "(nat \<times> nat) list"

text \<open>
  \<^verbatim>\<open>boost::dynamic_properties\<close>: named, typed arrays keyed by vertex or by edge index,
  one namespace per kind.
\<close>

datatype property_values =
    FloatValues "double list"
  | IntValues "int list"
  | StringValues "string list"

record dynamic_properties =
  vertex_properties :: "(string \<times> property_values) list"
  edge_properties :: "(string \<times> property_values) list"

text \<open>
  \<^verbatim>\<open>boost::python::object\<close>: the default-constructed object is Python's \<^verbatim>\<open>None\<close>; a
  filter object is a callable of the hosting environment, taking the index of a vertex or
  of an edge.
\<close>

datatype python_object = PyNone | PyCallable "nat \<Rightarrow> bool"

text \<open>The private members of \<^verbatim>\<open>GraphInterface\<close> (the leading underscore of each name is dropped).\<close>

record GraphInterface =
  mg :: multigraph_t
  reversed :: bool
  directed :: bool
  properties :: dynamic_properties
  vertex_filter_property :: string
  vertex_filter_map :: "double list"
  vertex_range :: "double \<times> double"
  vertex_python_filter :: python_object
  edge_filter_property :: string
  edge_filter_map :: "double list"
  edge_range :: "double \<times> double"
  edge_python_filter :: python_object

section \<open>The inline accessors of \<^verbatim>\<open>GraphInterface\<close>\<close>

definition SetDirected :: "bool \<Rightarrow> GraphInterface \<Rightarrow> GraphInterface" where
  "SetDirected b g = g\<lparr>directed := b\<rparr>"

definition GetDirected :: "GraphInterface \<Rightarrow> bool" where
  "GetDirected g = directed g"

definition SetReversed :: "bool \<Rightarrow> GraphInterface \<Rightarrow> GraphInterface" where
  "SetReversed b g = g\<lparr>reversed := b\<rparr>"

definition GetReversed :: "GraphInterface \<Rightarrow> bool" where
  "GetReversed g = reversed g"

definition GetVertexFilterProperty :: "GraphInterface \<Rightarrow> string" where
  "GetVertexFilterProperty g = vertex_filter_property g"

definition SetVertexFilterRange :: "double \<times> double \<Rightarrow> GraphInterface \<Rightarrow> GraphInterface" where
  "SetVertexFilterRange allowed_range g = g\<lparr>vertex_range := allowed_range\<rparr>"

definition GetVertexFilterRange :: "GraphInterface \<Rightarrow> double \<times> double" where
  "GetVertexFilterRange g = vertex_range g"

definition GetEdgeFilterProperty :: "GraphInterface \<Rightarrow> string" where
  "GetEdgeFilterProperty g = edge_filter_property g"

definition SetEdgeFilterRange :: "double \<times> double \<Rightarrow> GraphInterface \<Rightarrow> GraphInterface" where
  "SetEdgeFilterRange allowed_range g = g\<lparr>edge_range := allowed_range\<rparr>"

definition GetEdgeFilterRange :: "GraphInterface \<Rightarrow> double \<times> double" where
  "GetEdgeFilterRange g = edge_range g"

definition SetGenericVertexFilter :: "python_object \<Rightarrow> GraphInterface \<Rightarrow> GraphInterface" where
  "SetGenericVertexFilter f g = g\<lparr>vertex_python_filter := f\<rparr>"

definition SetGenericEdgeFilter :: "python_object \<Rightarrow> GraphInterface \<Rightarrow> GraphInterface" where
  "SetGenericEdgeFilter f g = g\<lparr>edge_python_filter := f\<rparr>"

section \<open>\<^verbatim>\<open>GraphException\<close>\<close>




section \<open>The view and the degree histogram\<close>

text \<open>
  Modelled from the spec: the error kinds of the operations whose bodies are not in
  \<^verbatim>\<open>graph.hh\<close> (the header only has \<^verbatim>\<open>GraphException\<close>, which carries a message).
\<close>

datatype error_kind =
    NotFound | TypeMismatch | InvalidArgument | Degenerate
  | GenerationFailure | IOFailure | Aborted

text \<open>
  Modelled from the spec: \<^verbatim>\<open>get_degree_type\<close> is declared in \<^verbatim>\<open>graph.hh\<close> with the type
  below and defined elsewhere. It turns the variant into the tagged form that the
  estimators dispatch on: an enumerator stays as it is, a string becomes the tag
  \<^verbatim>\<open>SCALAR\<close> with the name of the property.
\<close>

definition get_degree_type :: "deg_t \<Rightarrow> degree_t \<times> string" where
  "get_degree_type degree = (case degree of Deg d \<Rightarrow> (d, []) | Name s \<Rightarrow> (SCALAR, s))"

text \<open>
  Modelled from the spec: the view, which no declaration of \<^verbatim>\<open>graph.hh\<close> represents. It is
  the directed flag, the reversed flag, a vertex predicate and an edge predicate, applied
  to the multigraph; an edge is visible only if both of its endpoints are.
\<close>

record view =
  view_directed :: bool
  view_reversed :: bool
  vertex_pred :: "nat \<Rightarrow> bool"
  edge_pred :: "nat \<Rightarrow> bool"

text \<open>
  Modelled from the spec: the filter configuration of one kind, which \<^verbatim>\<open>graph.hh\<close> keeps in
  four members (\<^verbatim>\<open>_vertex_filter_property\<close>, \<^verbatim>\<open>_vertex_filter_map\<close>, \<^verbatim>\<open>_vertex_range\<close>,
  \<^verbatim>\<open>_vertex_python_filter\<close>, and the same for edges) and whose reading is in
  \<^verbatim>\<open>check_filter\<close> and \<^verbatim>\<open>check_python_filter\<close>, declared as friends and defined elsewhere.
  A configuration is either a range on a named property, or an externally supplied
  predicate, or inactive; a generic predicate, while it is set, supersedes the range filter
  of its kind. A range filter is configured when a filter property is named.
\<close>

datatype FilterConfig =
    RangeFilter string "double \<times> double"
  | GenericFilter "nat \<Rightarrow> bool"
  | Inactive

definition filter_config :: "python_object \<Rightarrow> string \<Rightarrow> double \<times> double \<Rightarrow> FilterConfig" where
  "filter_config python_filter property allowed_range =
     (case python_filter of
        PyCallable p \<Rightarrow> GenericFilter p
      | PyNone \<Rightarrow> if property = [] then Inactive else RangeFilter property allowed_range)"

definition vertex_filter_config :: "GraphInterface \<Rightarrow> FilterConfig" where
  "vertex_filter_config g =
     filter_config (vertex_python_filter g) (vertex_filter_property g) (vertex_range g)"

definition edge_filter_config :: "GraphInterface \<Rightarrow> FilterConfig" where
  "edge_filter_config g =
     filter_config (edge_python_filter g) (edge_filter_property g) (edge_range g)"

text \<open>
  Modelled from the spec: a property array is sized to the number of its items. A read past
  the end of a shorter array is written out as the zero of the element type.
\<close>

definition value_at :: "'a::zero list \<Rightarrow> nat \<Rightarrow> 'a" where
  "value_at xs v = (if v < length xs then xs ! v else 0)"

text \<open>
  Modelled from the spec: the view evaluates, for an item, the conjunction of the generic
  predicate and of the range test (the value of the filter property lies in the range,
  both ends included), where each conjunct is true when it is not configured.
\<close>

definition generic_conjunct :: "FilterConfig \<Rightarrow> nat \<Rightarrow> bool" where
  "generic_conjunct c i = (case c of GenericFilter p \<Rightarrow> p i | RangeFilter name r \<Rightarrow> True | Inactive \<Rightarrow> True)"

definition range_conjunct :: "FilterConfig \<Rightarrow> double list \<Rightarrow> nat \<Rightarrow> bool" where
  "range_conjunct c xs i =
     (case c of
        RangeFilter name r \<Rightarrow> fst r \<le> value_at xs i \<and> value_at xs i \<le> snd r
      | GenericFilter p \<Rightarrow> True
      | Inactive \<Rightarrow> True)"

definition view_of :: "GraphInterface \<Rightarrow> view" where
  "view_of g =
     \<lparr>view_directed = directed g, view_reversed = reversed g,
      vertex_pred = (\<lambda>v. generic_conjunct (vertex_filter_config g) v \<and>
                          range_conjunct (vertex_filter_config g) (vertex_filter_map g) v),
      edge_pred = (\<lambda>e. generic_conjunct (edge_filter_config g) e \<and>
                        range_conjunct (edge_filter_config g) (edge_filter_map g) e)\<rparr>"

definition visible_vertices :: "view \<Rightarrow> multigraph_t \<Rightarrow> nat list" where
  "visible_vertices V m = filter (vertex_pred V) [0 ..< vertex_count m]"

definition visible_edges :: "view \<Rightarrow> multigraph_t \<Rightarrow> (nat \<times> nat \<times> nat) list" where
  "visible_edges V m =
     filter (\<lambda>(e, s, t). vertex_pred V s \<and> vertex_pred V t \<and> edge_pred V e)
       (enumerate 0 (edge_list m))"

definition in_edges :: "view \<Rightarrow> multigraph_t \<Rightarrow> nat \<Rightarrow> (nat \<times> nat \<times> nat) list" where
  "in_edges V m v = filter (\<lambda>(e, s, t). t = v) (visible_edges V m)"

definition out_edges :: "view \<Rightarrow> multigraph_t \<Rightarrow> nat \<Rightarrow> (nat \<times> nat \<times> nat) list" where
  "out_edges V m v = filter (\<lambda>(e, s, t). s = v) (visible_edges V m)"

text \<open>
  Modelled from the spec: the filtered degree. When the view is reversed, IN and OUT swap;
  when it is undirected, IN, OUT and TOTAL are all the count of the visible incident edges
  (the in- and the out-edges of the vertex together).
\<close>

definition degree :: "view \<Rightarrow> multigraph_t \<Rightarrow> degree_t \<Rightarrow> nat \<Rightarrow> nat" where
  "degree V m d v =
     (let i = length (in_edges V m v); k = length (out_edges V m v) in
      if \<not> view_directed V then i + k
      else (case d of
              IN_DEGREE \<Rightarrow> if view_reversed V then k else i
            | OUT_DEGREE \<Rightarrow> if view_reversed V then i else k
            | TOTAL_DEGREE \<Rightarrow> i + k
            | SCALAR \<Rightarrow> 0))"

text \<open>
  Modelled from the spec: the degree selector is resolved once, before the loop over the
  vertices. A name that is not a vertex property is \<open>NotFound\<close>, a property that is not
  numeric is \<open>TypeMismatch\<close>.
\<close>

definition degree_accessor ::
    "view \<Rightarrow> GraphInterface \<Rightarrow> deg_t \<Rightarrow> error_kind + (nat \<Rightarrow> double)" where
  "degree_accessor V g deg =
     (case get_degree_type deg of
        (SCALAR, name) \<Rightarrow>
          (case map_of (vertex_properties (properties g)) name of
             None \<Rightarrow> Inl NotFound
           | Some (FloatValues xs) \<Rightarrow> Inr (\<lambda>v. value_at xs v)
           | Some (IntValues xs) \<Rightarrow> Inr (\<lambda>v. real_of_int (value_at xs v))
           | Some (StringValues xs) \<Rightarrow> Inl TypeMismatch)
      | (d, name) \<Rightarrow> Inr (\<lambda>v. real (degree V (mg g) d v)))"

text \<open>
  Modelled from the spec: counting one more item under the key \<open>k\<close> of a \<^verbatim>\<open>hist_t\<close>
  (a new key starts at one), and the sum of the counts over all keys.
\<close>

fun hist_inc :: "double \<Rightarrow> hist_t \<Rightarrow> hist_t" where
  "hist_inc k [] = [(k, 1)]"
| "hist_inc k ((k', c) # h) = (if k = k' then (k', Suc c) # h else (k', c) # hist_inc k h)"

definition hist_total :: "hist_t \<Rightarrow> nat" where
  "hist_total h = sum_list (map snd h)"

text \<open>
  Modelled from the spec: the degree histogram of a view counts the visible vertices
  bucketed by the selected degree.
\<close>

definition degree_histogram :: "view \<Rightarrow> GraphInterface \<Rightarrow> deg_t \<Rightarrow> error_kind + hist_t" where
  "degree_histogram V g deg =
     (case degree_accessor V g deg of
        Inl e \<Rightarrow> Inl e
      | Inr f \<Rightarrow> Inr (foldl (\<lambda>h v. hist_inc (f v) h) [] (visible_vertices V (mg g))))"

text \<open>
  Modelled from the spec: \<^verbatim>\<open>GetNumberOfVertices\<close> and \<^verbatim>\<open>GetDegreeHistogram\<close> are declared
  in \<^verbatim>\<open>graph.hh\<close> and defined elsewhere. Both work on the view of the state they are
  called on: the first counts its visible vertices, the second is its degree histogram.
\<close>

definition GetNumberOfVertices :: "GraphInterface \<Rightarrow> nat" where
  "GetNumberOfVertices g = length (visible_vertices (view_of g) (mg g))"

definition GetDegreeHistogram :: "GraphInterface \<Rightarrow> deg_t \<Rightarrow> error_kind + hist_t" where
  "GetDegreeHistogram g deg = degree_histogram (view_of g) g deg"

section \<open>Removing parallel edges\<close>

text \<open>
  Modelled from the spec: \<^verbatim>\<open>RemoveParallelEdges\<close> is declared in \<^verbatim>\<open>graph.hh\<close> and defined
  elsewhere. Scanning the edges in index order, an edge stays when no earlier edge has the
  same ordered pair of source and target. The edge indices stay dense, so every array keyed
  by the edge index is compacted with the edge list.
\<close>

fun parallel_mask :: "(nat \<times> nat) list \<Rightarrow> (nat \<times> nat) list \<Rightarrow> bool list" where
  "parallel_mask seen [] = []"
| "parallel_mask seen (e # es) = (e \<notin> set seen) # parallel_mask (e # seen) es"

fun compaction :: "bool list \<Rightarrow> 'a list \<Rightarrow> 'a list" where
  "compaction (k # ks) (x # xs) = (if k then x # compaction ks xs else compaction ks xs)"
| "compaction ks xs = []"

fun compaction_values :: "bool list \<Rightarrow> property_values \<Rightarrow> property_values" where
  "compaction_values ks (FloatValues xs) = FloatValues (compaction ks xs)"
| "compaction_values ks (IntValues xs) = IntValues (compaction ks xs)"
| "compaction_values ks (StringValues xs) = StringValues (compaction ks xs)"

definition RemoveParallelEdges :: "GraphInterface \<Rightarrow> GraphInterface" where
  "RemoveParallelEdges g =
     (let ks = parallel_mask [] (edge_list (mg g)) in
      g\<lparr>mg := (mg g)\<lparr>edge_list := compaction ks (edge_list (mg g))\<rparr>,
        properties := (properties g)\<lparr>edge_properties :=
          map (\<lambda>(name, vs). (name, compaction_values ks vs)) (edge_properties (properties g))\<rparr>,
        edge_filter_map := compaction ks (edge_filter_map g)\<rparr>)"

section \<open>Concrete inputs\<close>

text \<open>A directed graph of three vertices with a parallel pair of edges from 0 to 2, and a
  range filter on the vertex property \<open>keep\<close> that hides vertex 1.\<close>

definition graph_example :: GraphInterface where
  "graph_example = \<lparr>mg = \<lparr>vertex_count = 3, edge_list = [(0, 2), (0, 1), (0, 2), (2, 0)]\<rparr>,
     reversed = False, directed = True,
     properties = \<lparr>vertex_properties = [(''keep'', FloatValues [1, 0, 1])],
                   edge_properties = [(''x'', IntValues [1, 2, 3, 4])]\<rparr>,
     vertex_filter_property = ''keep'', vertex_filter_map = [1, 0, 1], vertex_range = (1, 1),
     vertex_python_filter = PyNone,
     edge_filter_property = [], edge_filter_map = [], edge_range = (0, 0),
     edge_python_filter = PyNone\<rparr>"



section \<open>Propagation of errors\<close>




section \<open>The histogram counts every visible vertex once\<close>

lemma hist_total_Nil: "hist_total [] = 0"
  by (simp add: hist_total_def)

lemma hist_total_inc: "hist_total (hist_inc k h) = Suc (hist_total h)"
  by (induction h) (auto simp: hist_total_def)

lemma hist_total_foldl:
  "hist_total (foldl (\<lambda>h v. hist_inc (f v) h) h0 vs) = hist_total h0 + length vs"
  by (induction vs arbitrary: h0) (simp_all add: hist_total_inc)



lemma degree_histogram_of_view:
  assumes "degree_histogram V g deg = Inr h"
  shows "hist_total h = length (visible_vertices V (mg g))"
proof (cases "degree_accessor V g deg")
  case (Inl e)
  with assms show ?thesis by (simp add: degree_histogram_def)
next
  case (Inr f)
  with assms have "h = foldl (\<lambda>h v. hist_inc (f v) h) [] (visible_vertices V (mg g))"
    by (simp add: degree_histogram_def)
  then show ?thesis
    by (simp add: hist_total_foldl hist_total_Nil)
qed

lemma degree_histogram_enumerator_returns:
  "d \<noteq> SCALAR \<Longrightarrow> \<exists>h. GetDegreeHistogram g (Deg d) = Inr h"
  by (cases d)
    (simp_all add: GetDegreeHistogram_def degree_histogram_def degree_accessor_def
      get_degree_type_def)

text \<open>
  Claim C1. For every graph state (whatever its directed flag, its reversed flag and its
  vertex and edge filters) and every degree selector, the counts of the histogram that
  \<^verbatim>\<open>GetDegreeHistogram\<close> returns add up to the number of visible vertices of the view.
\<close>

theorem degree_histogram_total:
  assumes "GetDegreeHistogram g deg = Inr h"
  shows "hist_total h = GetNumberOfVertices g"
  using assms degree_histogram_of_view [of "view_of g" g deg h]
  by (simp add: GetDegreeHistogram_def GetNumberOfVertices_def)

theorem degree_histogram_total_witness:
  "GetDegreeHistogram graph_example (Deg OUT_DEGREE) = Inr [(2, 1), (1, 1)] \<and>
   hist_total [(2, 1), (1, 1)] = GetNumberOfVertices graph_example"
proof -
  have h: "GetDegreeHistogram graph_example (Deg OUT_DEGREE) = Inr [(2, 1), (1, 1)]"
    by (simp add: GetDegreeHistogram_def degree_histogram_def degree_accessor_def
        get_degree_type_def view_of_def vertex_filter_config_def edge_filter_config_def
        filter_config_def generic_conjunct_def range_conjunct_def value_at_def
        graph_example_def visible_vertices_def degree_def in_edges_def
        out_edges_def visible_edges_def upt_rec)
  from h degree_histogram_total [OF h] show ?thesis by simp
qed

section \<open>Reversing twice\<close>

text \<open>
  Claim C2. Calling \<^verbatim>\<open>SetReversed\<close> with the negation of the current flag, twice in a row,
  gives back the state it started from, so that every function \<open>E\<close> of the state (every
  estimator) has the output it had before.
\<close>

theorem set_reversed_twice:
  "SetReversed (\<not> GetReversed (SetReversed (\<not> GetReversed g) g))
     (SetReversed (\<not> GetReversed g) g) = g \<and>
   E (SetReversed (\<not> GetReversed (SetReversed (\<not> GetReversed g) g))
        (SetReversed (\<not> GetReversed g) g)) = E g"
  by (simp add: SetReversed_def GetReversed_def)

section \<open>Removing parallel edges is idempotent\<close>

lemma compaction_mask_distinct:
  "distinct (compaction (parallel_mask seen es) es) \<and>
   set (compaction (parallel_mask seen es) es) \<inter> set seen = {} \<and>
   set (compaction (parallel_mask seen es) es) \<subseteq> set es"
proof (induction es arbitrary: seen)
  case Nil
  show ?case by simp
next
  case (Cons e es)
  from Cons.IH [of "e # seen"] show ?case by auto
qed

lemma parallel_mask_distinct:
  "distinct es \<Longrightarrow> set es \<inter> set seen = {} \<Longrightarrow>
   parallel_mask seen es = replicate (length es) True"
  by (induction es arbitrary: seen) auto

lemma parallel_mask_length: "length (parallel_mask seen es) = length es"
  by (induction es arbitrary: seen) auto

lemma compaction_all: "length xs \<le> n \<Longrightarrow> compaction (replicate n True) xs = xs"
  by (induction xs arbitrary: n) (auto simp: Suc_le_eq dest!: less_imp_Suc_add)

lemma compaction_length: "length (compaction ks xs) \<le> length (filter id ks)"
  by (induction ks xs rule: compaction.induct) auto

lemma compaction_length_eq:
  "length xs = length ks \<Longrightarrow> length (compaction ks xs) = length (filter id ks)"
  by (induction ks xs rule: compaction.induct) auto

lemma distinct_count_le_1: "distinct xs \<Longrightarrow> count_list xs x \<le> 1"
  by (induction xs) (auto simp: count_list_0_iff)

text \<open>
  Claim C5. After \<^verbatim>\<open>RemoveParallelEdges\<close> every ordered pair of vertices has at most one
  edge, and a second call changes nothing.
\<close>

theorem remove_parallel_edges_idempotent:
  "(\<forall>u v. count_list (edge_list (mg (RemoveParallelEdges g))) (u, v) \<le> 1) \<and>
   RemoveParallelEdges (RemoveParallelEdges g) = RemoveParallelEdges g"
proof
  let ?es = "edge_list (mg g)"
  let ?ks = "parallel_mask [] ?es"
  let ?n = "length (filter id ?ks)"
  have d: "distinct (compaction ?ks ?es)"
    using compaction_mask_distinct [of "[]" ?es] by simp
  have el: "edge_list (mg (RemoveParallelEdges g)) = compaction ?ks ?es"
    by (simp add: RemoveParallelEdges_def Let_def)
  show "\<forall>u v. count_list (edge_list (mg (RemoveParallelEdges g))) (u, v) \<le> 1"
    using distinct_count_le_1 [OF d] by (simp add: el)
  have m: "parallel_mask [] (compaction ?ks ?es) = replicate ?n True"
    using parallel_mask_distinct [OF d, of "[]"]
    by (simp add: compaction_length_eq parallel_mask_length)
  have c: "compaction (replicate ?n True) (compaction ?ks xs) = compaction ?ks xs"
    for xs :: "'a list"
    by (rule compaction_all) (rule compaction_length)
  have cv: "compaction_values (replicate ?n True) (compaction_values ?ks vs) =
      compaction_values ?ks vs" for vs
    by (cases vs) (simp_all add: c)
  show "RemoveParallelEdges (RemoveParallelEdges g) = RemoveParallelEdges g"
    unfolding RemoveParallelEdges_def [of "RemoveParallelEdges g"] Let_def el m
    by (simp add: RemoveParallelEdges_def Let_def c cv o_def split_def)
qed

section \<open>A generic filter supersedes the range filter\<close>

lemma range_filter_applies:
  "vertex_python_filter g = PyNone \<Longrightarrow> vertex_filter_property g \<noteq> [] \<Longrightarrow>
   vertex_pred (view_of g) v =
     (fst (vertex_range g) \<le> value_at (vertex_filter_map g) v \<and>
      value_at (vertex_filter_map g) v \<le> snd (vertex_range g))"
  by (simp add: view_of_def vertex_filter_config_def filter_config_def
      generic_conjunct_def range_conjunct_def)

text \<open>
  Claim C6. While a generic vertex predicate \<open>p\<close> is set, the view's vertex predicate is
  \<open>p\<close>, whatever filter property, range and filter values are configured, before or after
  the call of \<^verbatim>\<open>SetGenericVertexFilter\<close>; likewise for a generic edge predicate \<open>q\<close> and
  the view's edge predicate.
\<close>

theorem generic_filter_supersedes_range:
  "vertex_pred (view_of (SetGenericVertexFilter (PyCallable p) g)) v = p v \<and>
   vertex_pred (view_of (SetVertexFilterRange r (SetGenericVertexFilter (PyCallable p) g))) v = p v \<and>
   vertex_pred (view_of
     ((SetGenericVertexFilter (PyCallable p) g)\<lparr>vertex_filter_property := name,
        vertex_filter_map := xs\<rparr>)) v = p v \<and>
   edge_pred (view_of (SetGenericEdgeFilter (PyCallable q) g)) e = q e \<and>
   edge_pred (view_of (SetEdgeFilterRange r (SetGenericEdgeFilter (PyCallable q) g))) e = q e \<and>
   edge_pred (view_of
     ((SetGenericEdgeFilter (PyCallable q) g)\<lparr>edge_filter_property := name,
        edge_filter_map := xs\<rparr>)) e = q e"
  by (simp add: view_of_def vertex_filter_config_def edge_filter_config_def filter_config_def
      generic_conjunct_def range_conjunct_def
      SetGenericVertexFilter_def SetGenericEdgeFilter_def
      SetVertexFilterRange_def SetEdgeFilterRange_def)

section \<open>The outcome of a public operation and the message of a \<^verbatim>\<open>GraphException\<close>\<close>







section \<open>The degree arguments that \<^verbatim>\<open>deg_t\<close> admits and the estimators accept\<close>








section \<open>The frame of the configuration setters\<close>

text \<open>
  Claim C9. Each of \<^verbatim>\<open>SetDirected\<close>, \<^verbatim>\<open>SetReversed\<close>, \<^verbatim>\<open>SetVertexFilterRange\<close> and
  \<^verbatim>\<open>SetEdgeFilterRange\<close> writes its own member and nothing else: the paired getter returns
  the value just set, and the multigraph, the properties and every other flag and filter
  member are as before.
\<close>

theorem setters_frame:
  "(GetDirected (SetDirected b g) = b \<and>
    mg (SetDirected b g) = mg g \<and>
    reversed (SetDirected b g) = reversed g \<and>
    properties (SetDirected b g) = properties g \<and>
    vertex_filter_property (SetDirected b g) = vertex_filter_property g \<and>
    vertex_filter_map (SetDirected b g) = vertex_filter_map g \<and>
    vertex_range (SetDirected b g) = vertex_range g \<and>
    vertex_python_filter (SetDirected b g) = vertex_python_filter g \<and>
    edge_filter_property (SetDirected b g) = edge_filter_property g \<and>
    edge_filter_map (SetDirected b g) = edge_filter_map g \<and>
    edge_range (SetDirected b g) = edge_range g \<and>
    edge_python_filter (SetDirected b g) = edge_python_filter g) \<and>
   (GetReversed (SetReversed b g) = b \<and>
    mg (SetReversed b g) = mg g \<and>
    directed (SetReversed b g) = directed g \<and>
    properties (SetReversed b g) = properties g \<and>
    vertex_filter_property (SetReversed b g) = vertex_filter_property g \<and>
    vertex_filter_map (SetReversed b g) = vertex_filter_map g \<and>
    vertex_range (SetReversed b g) = vertex_range g \<and>
    vertex_python_filter (SetReversed b g) = vertex_python_filter g \<and>
    edge_filter_property (SetReversed b g) = edge_filter_property g \<and>
    edge_filter_map (SetReversed b g) = edge_filter_map g \<and>
    edge_range (SetReversed b g) = edge_range g \<and>
    edge_python_filter (SetReversed b g) = edge_python_filter g) \<and>
   (GetVertexFilterRange (SetVertexFilterRange r g) = r \<and>
    mg (SetVertexFilterRange r g) = mg g \<and>
    reversed (SetVertexFilterRange r g) = reversed g \<and>
    directed (SetVertexFilterRange r g) = directed g \<and>
    properties (SetVertexFilterRange r g) = properties g \<and>
    vertex_filter_property (SetVertexFilterRange r g) = vertex_filter_property g \<and>
    vertex_filter_map (SetVertexFilterRange r g) = vertex_filter_map g \<and>
    vertex_python_filter (SetVertexFilterRange r g) = vertex_python_filter g \<and>
    edge_filter_property (SetVertexFilterRange r g) = edge_filter_property g \<and>
    edge_filter_map (SetVertexFilterRange r g) = edge_filter_map g \<and>
    edge_range (SetVertexFilterRange r g) = edge_range g \<and>
    edge_python_filter (SetVertexFilterRange r g) = edge_python_filter g) \<and>
   (GetEdgeFilterRange (SetEdgeFilterRange r g) = r \<and>
    mg (SetEdgeFilterRange r g) = mg g \<and>
    reversed (SetEdgeFilterRange r g) = reversed g \<and>
    directed (SetEdgeFilterRange r g) = directed g \<and>
    properties (SetEdgeFilterRange r g) = properties g \<and>
    vertex_filter_property (SetEdgeFilterRange r g) = vertex_filter_property g \<and>
    vertex_filter_map (SetEdgeFilterRange r g) = vertex_filter_map g \<and>
    vertex_range (SetEdgeFilterRange r g) = vertex_range g \<and>
    vertex_python_filter (SetEdgeFilterRange r g) = vertex_python_filter g \<and>
    edge_filter_property (SetEdgeFilterRange r g) = edge_filter_property g \<and>
    edge_filter_map (SetEdgeFilterRange r g) = edge_filter_map g \<and>
    edge_python_filter (SetEdgeFilterRange r g) = edge_python_filter g)"
  by (simp add: SetDirected_def GetDirected_def SetReversed_def GetReversed_def
      SetVertexFilterRange_def GetVertexFilterRange_def
      SetEdgeFilterRange_def GetEdgeFilterRange_def)

section \<open>A generic filter leaves the range filter configured\<close>

text \<open>
  Claim C10. \<^verbatim>\<open>SetGenericVertexFilter\<close> stores the object it is given and leaves the
  property name and the range of the vertex filter as they were; \<^verbatim>\<open>SetGenericEdgeFilter\<close>
  does the same for the edge filter.
\<close>

theorem set_generic_filter_keeps_range:
  "(vertex_python_filter (SetGenericVertexFilter f g) = f \<and>
    GetVertexFilterProperty (SetGenericVertexFilter f g) = GetVertexFilterProperty g \<and>
    GetVertexFilterRange (SetGenericVertexFilter f g) = GetVertexFilterRange g \<and>
    vertex_filter_map (SetGenericVertexFilter f g) = vertex_filter_map g) \<and>
   (edge_python_filter (SetGenericEdgeFilter f g) = f \<and>
    GetEdgeFilterProperty (SetGenericEdgeFilter f g) = GetEdgeFilterProperty g \<and>
    GetEdgeFilterRange (SetGenericEdgeFilter f g) = GetEdgeFilterRange g \<and>
    edge_filter_map (SetGenericEdgeFilter f g) = edge_filter_map g)"
  by (simp add: SetGenericVertexFilter_def SetGenericEdgeFilter_def
      GetVertexFilterProperty_def GetVertexFilterRange_def
      GetEdgeFilterProperty_def GetEdgeFilterRange_def)

end
